theory Spec2Isabelle
  imports Main "HOL-Library.Word"
begin

section \<open>Data model of \<open>src/utils/screenshotsaver.cpp\<close>\<close>

text \<open>
  The file is glue over Qt and POSIX.  Every call that leaves the file (a system call, a
  logger statement, a Qt dialog, a clipboard or configuration write) is recorded as an
  event in a trace; the value each such call hands back to the code is read from an
  environment record.  The functions of the file thread a \<open>world\<close> (trace, \<open>errno\<close> and the
  persisted configuration) through their statements in source order.
\<close>

type_synonym byte = "8 word"
type_synonym QByteArray = "byte list"

datatype channel = InfoChannel | ErrorChannel | DefaultChannel

datatype open_flag = O_CLOEXEC

datatype accept_mode = AcceptOpen | AcceptSave

datatype proc_status = Running | Replaced | Killed

datatype sig_disposition = SIG_DFL | SIG_IGN

datatype 'a sysresult = Success 'a | Failure int

datatype exec_result = ImageReplaced | ExecFailed int

datatype qt_error = EmptyListAccess

record 'px QMimeData =
  imageData :: "'px option"
  formatData :: "(string \<times> QByteArray) list"

record QFileDialog =
  windowTitle :: string
  startDirectory :: string
  acceptMode :: accept_mode
  mimeTypeFilters :: "string list"
  selectedMimeTypeFilter :: string
  defaultSuffix :: string

record dialog_result =
  accepted :: bool
  selectedFiles :: "string list"

text \<open>
  A logger statement \<open>AbstractLogger::c().attachNotificationPath(p) << a << b\<close> is the event
  \<open>LogMessage c p [a, b]\<close>; a statement without \<open>attachNotificationPath\<close> has the empty path.
\<close>

datatype 'px event =
    LogMessage channel string "string list"
  | SysPipe2 open_flag
  | SysFork
  | SysClose int
  | SysDup2 int int
  | SysExeclp string "string list"
  | SysWrite int QByteArray nat
  | SysWaitpid int
  | FileOpenWriteOnly string
  | PixmapSave 'px string
  | FileDialogExec QFileDialog
  | ConfigSetSavePath string
  | KSystemClipboardSetMimeData "'px QMimeData"
  | QClipboardSetMimeData "'px QMimeData"
  | DaemonCopyToClipboard string string
  | MessageBoxExec string string string
  | HideCaptureWidget

text \<open>The persisted settings read and written through \<open>ConfigHandler\<close>.\<close>

record config =
  cfg_savePath :: string
  cfg_saveAsFileExtension :: string
  cfg_savePathFixed :: bool
  cfg_copyPathAfterSave :: bool

record 'px world =
  trace :: "'px event list"
  errno :: int
  settings :: config

text \<open>The preprocessor switches the file is compiled under (\<open>True\<close>: the macro is defined).\<close>

record build =
  USE_WL_COPY :: bool
  USE_WAYLAND_CLIPBOARD :: bool
  Q_OS_MACOS :: bool

text \<open>
  What the operating system answers to the calls of \<open>saveToClipboardWlCopy\<close>.
  \<open>fork_result = Success 0\<close> is the run of the child process, \<open>Success pid\<close> with
  \<open>pid > 0\<close> the run of the parent; descriptors and process ids are never negative, a
  failing call returns \<open>-1\<close> and sets \<open>errno\<close>.  \<open>strerror_text\<close> is the content of the buffer that
  \<open>strerror_r\<close> leaves for an \<open>errno\<close> value.  \<open>sigpipe_disposition\<close> is the disposition of
  \<open>SIGPIPE\<close> in the process; it is set outside this file and is \<open>SIG_DFL\<close> (terminate)
  unless the program changed it.
\<close>

record os_env =
  pipe2_result :: "(nat \<times> nat) sysresult"
  fork_result :: "nat sysresult"
  dup2_result :: "nat sysresult"
  execlp_result :: exec_result
  strerror_text :: "int \<Rightarrow> string"
  sigpipe_disposition :: sig_disposition

text \<open>
  What Qt and the other files of the program answer: \<open>FileNameHandler::properScreenshotPath\<close>,
  \<open>QObject::tr\<close>, \<open>QString::toUpper\<close>, \<open>QPixmap::save\<close>, \<open>QFile::error\<close> with
  \<open>QFile::errorString\<close> (\<open>None\<close> is \<open>QFile::NoError\<close>), \<open>QImageWriter\<close>,
  \<open>QPixmap::loadFromData\<close>, \<open>QMimeDatabase\<close>, \<open>QFileDialog::exec\<close>, \<open>QDir\<close>, \<open>QFileInfo\<close>,
  \<open>QStandardPaths\<close>, \<open>GlobalValues::iconPath\<close> and whether a \<open>CaptureWidget\<close> is among
  the top-level widgets.  None of them is defined in this file, so each is a parameter.
\<close>

record 'px qt_env =
  tr :: "string \<Rightarrow> string"
  toUpper :: "string \<Rightarrow> string"
  properScreenshotPath :: "string \<Rightarrow> string \<Rightarrow> string"
  pixmapSave :: "'px \<Rightarrow> string \<Rightarrow> bool"
  fileError :: "string \<Rightarrow> string option"
  imageWriterWrite :: "'px \<Rightarrow> string \<Rightarrow> QByteArray"
  loadFromData :: "QByteArray \<Rightarrow> string \<Rightarrow> 'px option"
  supportedMimeTypes :: "string list"
  mimeTypeForFile :: "string \<Rightarrow> string"
  dialogExec :: "QFileDialog \<Rightarrow> dialog_result"
  dirExists :: "string \<Rightarrow> bool"
  isWritable :: "string \<Rightarrow> bool"
  picturesLocation :: string
  iconPath :: string
  captureWidgetShown :: bool

section \<open>Primitive effects\<close>

definition emit :: "'px event \<Rightarrow> 'px world \<Rightarrow> 'px world" where
  "emit e w = w\<lparr>trace := trace w @ [e]\<rparr>"

definition STDIN_FILENO :: int where
  "STDIN_FILENO = 0"

text \<open>\<open>pipe2\<close> fills the array on success and leaves it as it was on failure.\<close>

definition sys_pipe2 ::
  "os_env \<Rightarrow> int \<times> int \<Rightarrow> open_flag \<Rightarrow> 'px world \<Rightarrow> (int \<times> int \<times> int) \<times> 'px world" where
  "sys_pipe2 os fds flags w =
     (let w1 = emit (SysPipe2 flags) w
      in case pipe2_result os of
           Success (r, wr) \<Rightarrow> ((0, int r, int wr), w1)
         | Failure e \<Rightarrow> ((- 1, fds), w1\<lparr>errno := e\<rparr>))"

definition sys_fork :: "os_env \<Rightarrow> 'px world \<Rightarrow> int \<times> 'px world" where
  "sys_fork os w =
     (let w1 = emit SysFork w
      in case fork_result os of
           Success pid \<Rightarrow> (int pid, w1)
         | Failure e \<Rightarrow> (- 1, w1\<lparr>errno := e\<rparr>))"

definition sys_dup2 :: "os_env \<Rightarrow> int \<Rightarrow> int \<Rightarrow> 'px world \<Rightarrow> int \<times> 'px world" where
  "sys_dup2 os oldfd newfd w =
     (let w1 = emit (SysDup2 oldfd newfd) w
      in case dup2_result os of
           Success fd \<Rightarrow> (int fd, w1)
         | Failure e \<Rightarrow> (- 1, w1\<lparr>errno := e\<rparr>))"

text \<open>\<open>execlp\<close> returns only when it failed; otherwise the process image is replaced.\<close>

definition sys_execlp ::
  "os_env \<Rightarrow> string \<Rightarrow> string list \<Rightarrow> 'px world \<Rightarrow> proc_status \<times> 'px world" where
  "sys_execlp os file args w =
     (let w1 = emit (SysExeclp file args) w
      in case execlp_result os of
           ImageReplaced \<Rightarrow> (Replaced, w1)
         | ExecFailed e \<Rightarrow> (Running, w1\<lparr>errno := e\<rparr>))"

text \<open>
  \<open>write\<close>, as the file uses it: on \<open>pipefds[1]\<close>, after the writer has closed its own
  \<open>pipefds[0]\<close>.  The descriptor is then the write end of a pipe without any read end
  exactly when \<open>pipe2\<close> created the pipe and \<open>fork\<close> failed, since only a forked child
  holds another copy of the read end (in the child \<open>fork\<close> did not fail, and after a failed
  \<open>pipe2\<close> the descriptor is no pipe).  Writing at least one byte to such a pipe raises
  \<open>SIGPIPE\<close>, which under \<open>SIG_DFL\<close> terminates the process inside the call; in every
  other case the call returns, and the file ignores what it returns.  \<open>close\<close> and
  \<open>waitpid\<close> are recorded as issued; the file ignores their results as well.
\<close>

definition write_end_without_reader :: "os_env \<Rightarrow> int \<Rightarrow> bool" where
  "write_end_without_reader os fd =
     (case pipe2_result os of
        Success (r, wr) \<Rightarrow>
          fd = int wr \<and> (case fork_result os of Success pid \<Rightarrow> False | Failure e \<Rightarrow> True)
      | Failure e \<Rightarrow> False)"

definition sys_write ::
  "os_env \<Rightarrow> int \<Rightarrow> QByteArray \<Rightarrow> nat \<Rightarrow> 'px world \<Rightarrow> proc_status \<times> 'px world" where
  "sys_write os fd bytes n w =
     (let w1 = emit (SysWrite fd bytes n) w
      in if write_end_without_reader os fd \<and> 0 < n \<and> sigpipe_disposition os = SIG_DFL
         then (Killed, w1)
         else (Running, w1))"

section \<open>The wl-copy backend\<close>

definition logErr :: "os_env \<Rightarrow> string \<Rightarrow> 'px world \<Rightarrow> 'px world" where
  "logErr os name w =
     emit (LogMessage ErrorChannel [] [''wl_copy: '' @ name @ '': '', strerror_text os (errno w)]) w"

text \<open>The block run when \<open>fork\<close> returned \<open>0\<close>: the child process.\<close>

definition wlCopyChild :: "os_env \<Rightarrow> int \<times> int \<Rightarrow> 'px world \<Rightarrow> proc_status \<times> 'px world" where
  "wlCopyChild os pipefds w0 =
     (let w1 = emit (SysClose (snd pipefds)) w0;
          (rc, w2) = sys_dup2 os (fst pipefds) STDIN_FILENO w1;
          w3 = (if rc = - 1 then logErr os ''dup2'' w2 else w2);
          w4 = emit (SysClose (fst pipefds)) w3
      in sys_execlp os ''wl-copy'' [''wl-copy'', ''-t'', ''image/png''] w4)"

definition saveToClipboardWlCopy ::
  "os_env \<Rightarrow> QByteArray \<Rightarrow> string \<Rightarrow> 'px world \<Rightarrow> proc_status \<times> 'px world" where
  "saveToClipboardWlCopy os array imageType w0 =
     (if imageType \<noteq> ''png'' then
        (Running, emit (LogMessage ErrorChannel [] [''WL_COPY option only supports png'']) w0)
      else
        let ((rc, pipefds), w1) = sys_pipe2 os (0, 0) O_CLOEXEC w0;
            w2 = (if rc = - 1 then logErr os ''pipe2'' w1 else w1);
            (pid, w3) = sys_fork os w2;
            w4 = (if pid = - 1 then logErr os ''fork'' w3 else w3);
            (st, w5) = (if pid = 0 then wlCopyChild os pipefds w4 else (Running, w4))
        in if st = Replaced then (Replaced, w5)
           else
             let w6 = emit (SysClose (fst pipefds)) w5;
                 (st7, w7) = sys_write os (snd pipefds) array (length array) w6
             in if st7 = Killed then (Killed, w7)
                else
                  let w8 = emit (SysClose (snd pipefds)) w7;
                      w9 = emit (SysWaitpid pid) w8
                  in (Running, w9))"

section \<open>Saving to a file\<close>

definition saveToFilesystem ::
  "'px qt_env \<Rightarrow> 'px \<Rightarrow> string \<Rightarrow> string \<Rightarrow> 'px world \<Rightarrow> bool \<times> 'px world" where
  "saveToFilesystem qt capture path messagePrefix w0 =
     (let completePath = properScreenshotPath qt path (cfg_saveAsFileExtension (settings w0));
          w1 = emit (FileOpenWriteOnly completePath) w0;
          okay = pixmapSave qt capture completePath;
          w2 = emit (PixmapSave capture completePath) w1;
          saveMessage = messagePrefix;
          notificationPath = completePath;
          saveMessage = (if saveMessage \<noteq> [] then saveMessage @ '' '' else saveMessage)
      in if okay then
           let saveMessage = saveMessage @ tr qt ''Capture saved as '' @ completePath
           in (okay, emit (LogMessage InfoChannel notificationPath [saveMessage]) w2)
         else
           let saveMessage = saveMessage @ tr qt ''Error trying to save as '' @ completePath;
               saveMessage = (case fileError qt completePath of
                                None \<Rightarrow> saveMessage
                              | Some errorString \<Rightarrow> saveMessage @ '': '' @ errorString);
               notificationPath = []
           in (okay, emit (LogMessage ErrorChannel notificationPath [saveMessage]) w2))"

section \<open>The save dialog\<close>

text \<open>
  The \<open>foreach\<close> loop over \<open>QImageWriter::supportedMimeTypes()\<close>: the first argument is what
  is left to visit, the second the \<open>mimeTypeList\<close> built so far.
\<close>

fun mimeTypeLoop :: "string list \<Rightarrow> string list \<Rightarrow> string list" where
  "mimeTypeLoop [] mimeTypeList = mimeTypeList"
| "mimeTypeLoop (mimeType # rest) mimeTypeList =
     mimeTypeLoop rest
       (if mimeType \<noteq> ''image/heic'' \<and> mimeType \<noteq> ''image/heic-sequence'' \<and>
           mimeType \<noteq> ''image/heif-sequence''
        then mimeTypeList @ [mimeType] else mimeTypeList)"

definition newFileDialog :: "string \<Rightarrow> string \<Rightarrow> QFileDialog" where
  "newFileDialog title dir =
     \<lparr>windowTitle = title, startDirectory = dir, acceptMode = AcceptOpen,
      mimeTypeFilters = [], selectedMimeTypeFilter = [], defaultSuffix = []\<rparr>"

text \<open>
  \<open>constFirst()\<close> of an empty list is an assertion failure in Qt; it is the error
  \<open>EmptyListAccess\<close> here.
\<close>

text \<open>The dialog as the statements before \<open>dialog.exec()\<close> leave it.\<close>

definition saveDialogSetup :: "'px qt_env \<Rightarrow> string \<Rightarrow> string \<Rightarrow> config \<Rightarrow> QFileDialog" where
  "saveDialogSetup qt title dir cfg =
     (let dialog = newFileDialog title dir;
          dialog = dialog\<lparr>acceptMode := AcceptSave\<rparr>;
          mimeTypeList = mimeTypeLoop (supportedMimeTypes qt) [];
          dialog = dialog\<lparr>mimeTypeFilters := mimeTypeList\<rparr>;
          suffix = cfg_saveAsFileExtension cfg;
          suffix = (if suffix = [] then ''png'' else suffix);
          defaultMimeType = mimeTypeForFile qt (''image.'' @ suffix);
          dialog = dialog\<lparr>selectedMimeTypeFilter := defaultMimeType\<rparr>
      in dialog\<lparr>defaultSuffix := suffix\<rparr>)"

definition ShowSaveFileDialog ::
  "'px qt_env \<Rightarrow> string \<Rightarrow> string \<Rightarrow> 'px world \<Rightarrow> (qt_error + string) \<times> 'px world" where
  "ShowSaveFileDialog qt title dir w0 =
     (let dialog = saveDialogSetup qt title dir (settings w0);
          w1 = emit (FileDialogExec dialog) w0;
          r = dialogExec qt dialog
      in if accepted r then
           (case selectedFiles r of
              [] \<Rightarrow> (Inl EmptyListAccess, w1)
            | f # _ \<Rightarrow> (Inr f, w1))
         else (Inr [], w1))"

section \<open>Copying to the clipboard\<close>

definition newMimeData :: "'px QMimeData" where
  "newMimeData = \<lparr>imageData = None, formatData = []\<rparr>"

definition saveToClipboardMime ::
  "build \<Rightarrow> os_env \<Rightarrow> 'px qt_env \<Rightarrow> 'px \<Rightarrow> string \<Rightarrow> 'px world \<Rightarrow> proc_status \<times> 'px world" where
  "saveToClipboardMime b os qt capture imageType w0 =
     (let array = imageWriterWrite qt capture (toUpper qt imageType)
      in case loadFromData qt array (toUpper qt imageType) of
           Some formattedPixmap \<Rightarrow>
             (let mimeData = newMimeData
              in if USE_WL_COPY b then saveToClipboardWlCopy os array imageType w0
                 else if USE_WAYLAND_CLIPBOARD b then
                   let w1 = emit (LogMessage InfoChannel [] [''wl_wayland_copy'']) w0;
                       mimeData = mimeData\<lparr>imageData := Some formattedPixmap\<rparr>;
                       mimeData = mimeData\<lparr>formatData :=
                                    formatData mimeData @ [(''x-kde-force-image-copy'', [])]\<rparr>
                   in (Running, emit (KSystemClipboardSetMimeData mimeData) w1)
                 else
                   let mimeData = mimeData\<lparr>formatData :=
                                    formatData mimeData @ [(''image/'' @ imageType, array)]\<rparr>
                   in (Running, emit (QClipboardSetMimeData mimeData) w0))
         | None \<Rightarrow>
             (Running,
              emit (LogMessage ErrorChannel [] [tr qt ''Error while saving to clipboard'']) w0))"

section \<open>Saving through the dialog\<close>

text \<open>
  \<open>QString::lastIndexOf\<close> for a one-character needle (\<open>-1\<close> when it does not occur) and
  \<open>QString::left\<close> (the whole string when \<open>n\<close> is negative or not less than the size).
\<close>

fun lastIndexOf :: "char \<Rightarrow> string \<Rightarrow> int" where
  "lastIndexOf c [] = - 1"
| "lastIndexOf c (x # xs) =
     (let r = lastIndexOf c xs
      in if 0 \<le> r then r + 1 else if x = c then 0 else - 1)"

definition left :: "int \<Rightarrow> string \<Rightarrow> string" where
  "left n s = (if n < 0 \<or> int (length s) \<le> n then s else take (nat n) s)"

definition setSavePath :: "string \<Rightarrow> 'px world \<Rightarrow> 'px world" where
  "setSavePath p w = emit (ConfigSetSavePath p) (w\<lparr>settings := (settings w)\<lparr>cfg_savePath := p\<rparr>\<rparr>)"

text \<open>
  The first half of \<open>saveToFilesystemGUI\<close>, up to the test \<open>savePath == ""\<close>: the path the
  capture is to be saved at.
\<close>

definition promptSavePath ::
  "build \<Rightarrow> 'px qt_env \<Rightarrow> 'px world \<Rightarrow> (qt_error + string) \<times> 'px world" where
  "promptSavePath b qt w0 =
     (let defaultSavePath = cfg_savePath (settings w0);
          defaultSavePath =
            (if defaultSavePath = [] \<or> \<not> dirExists qt defaultSavePath \<or>
                \<not> isWritable qt defaultSavePath
             then picturesLocation qt else defaultSavePath);
          savePath = properScreenshotPath qt defaultSavePath
                       (cfg_saveAsFileExtension (settings w0));
          w1 = (if Q_OS_MACOS b \<and> captureWidgetShown qt then emit HideCaptureWidget w0 else w0)
      in if \<not> cfg_savePathFixed (settings w1)
         then ShowSaveFileDialog qt (tr qt ''Save screenshot'') savePath w1
         else (Inr savePath, w1))"

definition saveToFilesystemGUI ::
  "build \<Rightarrow> 'px qt_env \<Rightarrow> 'px \<Rightarrow> 'px world \<Rightarrow> (qt_error + bool) \<times> 'px world" where
  "saveToFilesystemGUI b qt capture w0 =
     (let okay = False;
          (r, w2) = promptSavePath b qt w0
      in case r of
           Inl e \<Rightarrow> (Inl e, w2)
         | Inr savePath \<Rightarrow>
             if savePath = [] then (Inr okay, w2)
             else
               let w3 = emit (FileOpenWriteOnly savePath) w2;
                   okay = pixmapSave qt capture savePath;
                   w4 = emit (PixmapSave capture savePath) w3
               in if okay then
                    let pathNoFile = left (lastIndexOf CHR ''/'' savePath) savePath;
                        w5 = setSavePath pathNoFile w4;
                        msg = tr qt ''Capture saved as '' @ savePath;
                        w6 = emit (LogMessage DefaultChannel savePath [msg]) w5;
                        w7 = (if cfg_copyPathAfterSave (settings w6)
                              then emit (DaemonCopyToClipboard savePath
                                     (tr qt ''Path copied to clipboard as '' @ savePath)) w6
                              else w6)
                    in (Inr okay, w7)
                  else
                    let msg = tr qt ''Error trying to save as '' @ savePath;
                        msg = (case fileError qt savePath of
                                 None \<Rightarrow> msg
                               | Some errorString \<Rightarrow> msg @ '': '' @ errorString);
                        w5 = emit (MessageBoxExec (tr qt ''Save Error'') msg (iconPath qt)) w4
                    in (Inr okay, w5))"

section \<open>Reading a trace\<close>

text \<open>
  The events a run appended to the trace, and the classes of events the properties below
  speak about.
\<close>

definition newEvents :: "'px world \<Rightarrow> 'px world \<Rightarrow> 'px event list" where
  "newEvents w w' = drop (length (trace w)) (trace w')"

definition isLog :: "'px event \<Rightarrow> bool" where
  "isLog e = (case e of LogMessage c p m \<Rightarrow> True | _ \<Rightarrow> False)"

definition isFileEvent :: "'px event \<Rightarrow> bool" where
  "isFileEvent e = (case e of FileOpenWriteOnly p \<Rightarrow> True | PixmapSave c p \<Rightarrow> True | _ \<Rightarrow> False)"

definition isConfigWrite :: "'px event \<Rightarrow> bool" where
  "isConfigWrite e = (case e of ConfigSetSavePath p \<Rightarrow> True | _ \<Rightarrow> False)"

text \<open>The log line \<open>logErr name\<close> writes when the call \<open>name\<close> failed; nothing otherwise.\<close>

definition failLog :: "os_env \<Rightarrow> string \<Rightarrow> 'a sysresult \<Rightarrow> 'px event list" where
  "failLog os name r =
     (case r of
        Success v \<Rightarrow> []
      | Failure e \<Rightarrow>
          [LogMessage ErrorChannel [] [''wl_copy: '' @ name @ '': '', strerror_text os e]])"

text \<open>
  The content of \<open>pipefds\<close> after \<open>pipe2\<close> (still zero-initialised when it failed) and the
  value \<open>fork\<close> returned.
\<close>

definition pipefdsAfter :: "os_env \<Rightarrow> int \<times> int" where
  "pipefdsAfter os =
     (case pipe2_result os of Success (r, wr) \<Rightarrow> (int r, int wr) | Failure e \<Rightarrow> (0, 0))"

definition forkReturn :: "os_env \<Rightarrow> int" where
  "forkReturn os = (case fork_result os of Success pid \<Rightarrow> int pid | Failure e \<Rightarrow> - 1)"

text \<open>
  Whether the process ends inside the \<open>write\<close> of a run on \<open>png\<close>: the pipe was created,
  \<open>fork\<close> failed, the array is not empty and \<open>SIGPIPE\<close> has its default disposition.
\<close>

definition killedAtWrite :: "os_env \<Rightarrow> QByteArray \<Rightarrow> bool" where
  "killedAtWrite os array =
     (case pipe2_result os of
        Success p \<Rightarrow>
          (case fork_result os of
             Success pid \<Rightarrow> False
           | Failure e \<Rightarrow> array \<noteq> [] \<and> sigpipe_disposition os = SIG_DFL)
      | Failure e \<Rightarrow> False)"

definition heifAliases :: "string set" where
  "heifAliases = {''image/heic'', ''image/heic-sequence'', ''image/heif-sequence''}"




section \<open>Example environments\<close>

text \<open>
  Concrete runs on which the theorems are instantiated: a capture is a number, the
  operating system either serves every call (\<open>parentOs\<close>, and \<open>childOs\<close> for the forked
  process) or refuses them (\<open>failingOs\<close>, \<open>childDup2FailOs\<close>, and \<open>forkFailOs\<close> where only
  \<open>fork\<close> fails), and Qt saves everywhere but under \<open>/root\<close> and encodes PNG only
  (\<open>jpegQt\<close>: JPEG as well).
\<close>

definition strerrorExample :: "int \<Rightarrow> string" where
  "strerrorExample e =
     (if e = 24 then ''Too many open files''
      else if e = 11 then ''Resource temporarily unavailable''
      else ''Bad file descriptor'')"

definition parentOs :: os_env where
  "parentOs = \<lparr>pipe2_result = Success (5, 6), fork_result = Success 4242,
     dup2_result = Success 0, execlp_result = ImageReplaced, strerror_text = strerrorExample,
     sigpipe_disposition = SIG_DFL\<rparr>"

definition childOs :: os_env where
  "childOs = parentOs\<lparr>fork_result := Success 0\<rparr>"

definition failingOs :: os_env where
  "failingOs = \<lparr>pipe2_result = Failure 24, fork_result = Failure 11,
     dup2_result = Failure 9, execlp_result = ExecFailed 2, strerror_text = strerrorExample,
     sigpipe_disposition = SIG_DFL\<rparr>"

definition forkFailOs :: os_env where
  "forkFailOs = parentOs\<lparr>fork_result := Failure 11\<rparr>"

definition forkFailIgnoringOs :: os_env where
  "forkFailIgnoringOs = forkFailOs\<lparr>sigpipe_disposition := SIG_IGN\<rparr>"

definition childDup2FailOs :: os_env where
  "childDup2FailOs = childOs\<lparr>dup2_result := Failure 9\<rparr>"

definition pngBytes :: QByteArray where
  "pngBytes = [137, 80, 78, 71]"

definition exampleWorld :: "nat world" where
  "exampleWorld = \<lparr>trace = [], errno = 0,
     settings = \<lparr>cfg_savePath = ''/home/u/Pictures'', cfg_saveAsFileExtension = [],
       cfg_savePathFixed = False, cfg_copyPathAfterSave = False\<rparr>\<rparr>"

definition exampleQt :: "nat qt_env" where
  "exampleQt =
     \<lparr>tr = (\<lambda>s. s),
      toUpper = (\<lambda>s. if s = ''png'' then ''PNG'' else if s = ''jpeg'' then ''JPEG'' else s),
      properScreenshotPath = (\<lambda>p ext. p @ ''/shot.'' @ (if ext = [] then ''png'' else ext)),
      pixmapSave = (\<lambda>c p. p \<noteq> ''/root/shot.png''),
      fileError = (\<lambda>p. if p = ''/root/shot.png'' then Some ''Permission denied'' else None),
      imageWriterWrite = (\<lambda>c fmt. if fmt = ''PNG'' then pngBytes else []),
      loadFromData = (\<lambda>bytes fmt. if bytes = [] then None else Some 7),
      supportedMimeTypes = [''image/bmp'', ''image/heic'', ''image/heif'',
                            ''image/heif-sequence'', ''image/jpeg'', ''image/png''],
      mimeTypeForFile = (\<lambda>f. ''image/png''),
      dialogExec = (\<lambda>d. \<lparr>accepted = True, selectedFiles = [''/home/u/Pictures/shot.png'']\<rparr>),
      dirExists = (\<lambda>p. True),
      isWritable = (\<lambda>p. True),
      picturesLocation = ''/home/u/Pictures'',
      iconPath = '':img/app/flameshot.svg'',
      captureWidgetShown = False\<rparr>"



definition cancelQt :: "nat qt_env" where
  "cancelQt = exampleQt\<lparr>dialogExec := (\<lambda>d. \<lparr>accepted = False, selectedFiles = []\<rparr>)\<rparr>"

definition wlCopyBuild :: build where
  "wlCopyBuild = \<lparr>USE_WL_COPY = True, USE_WAYLAND_CLIPBOARD = True, Q_OS_MACOS = False\<rparr>"


definition standardBuild :: build where
  "standardBuild = \<lparr>USE_WL_COPY = False, USE_WAYLAND_CLIPBOARD = False, Q_OS_MACOS = False\<rparr>"

section \<open>Basic facts\<close>

lemma trace_emit [simp]: "trace (emit e w) = trace w @ [e]"
  by (simp add: emit_def)

lemma errno_emit [simp]: "errno (emit e w) = errno w"
  by (simp add: emit_def)

lemma settings_emit [simp]: "settings (emit e w) = settings w"
  by (simp add: emit_def)

lemma newEvents_append [simp]: "trace w' = trace w @ es \<Longrightarrow> newEvents w w' = es"
  by (simp add: newEvents_def)

section \<open>The wl-copy backend: \<open>saveToClipboardWlCopy\<close>\<close>

text \<open>
  C8.  For every image type other than \<open>png\<close> the function writes the one error line
  \<open>WL_COPY option only supports png\<close> and returns: the trace grows by that line alone, so
  no pipe is created, no process forked and nothing written.
\<close>

theorem wl_copy_rejects_non_png:
  "imageType \<noteq> ''png'' \<Longrightarrow>
   saveToClipboardWlCopy os array imageType w =
     (Running,
      w\<lparr>trace := trace w @
           [LogMessage ErrorChannel [] [''WL_COPY option only supports png'']]\<rparr>)"
  by (simp add: saveToClipboardWlCopy_def emit_def)

theorem wl_copy_rejects_non_png_witness:
  "saveToClipboardWlCopy parentOs pngBytes ''jpeg'' exampleWorld =
     (Running,
      exampleWorld\<lparr>trace := [LogMessage ErrorChannel [] [''WL_COPY option only supports png'']]\<rparr>)"
  using wl_copy_rejects_non_png [of "''jpeg''" parentOs pngBytes exampleWorld]
  by (simp add: exampleWorld_def)



text \<open>
  The events of a run on \<open>png\<close>, whatever the operating system answers: every call once,
  in source order, a log line right after each call that failed, and nothing after a
  \<open>write\<close> that ended the process.
\<close>

lemma saveToClipboardWlCopy_png_trace:
  "trace (snd (saveToClipboardWlCopy os array ''png'' w)) =
     trace w @ [SysPipe2 O_CLOEXEC] @ failLog os ''pipe2'' (pipe2_result os) @
     [SysFork] @ failLog os ''fork'' (fork_result os) @
     (if fork_result os = Success 0
      then [SysClose (snd (pipefdsAfter os)), SysDup2 (fst (pipefdsAfter os)) 0] @
           failLog os ''dup2'' (dup2_result os) @
           [SysClose (fst (pipefdsAfter os)),
            SysExeclp ''wl-copy'' [''wl-copy'', ''-t'', ''image/png'']]
      else []) @
     (if fork_result os = Success 0 \<and> execlp_result os = ImageReplaced then []
      else [SysClose (fst (pipefdsAfter os)),
            SysWrite (snd (pipefdsAfter os)) array (length array)] @
           (if killedAtWrite os array then []
            else [SysClose (snd (pipefdsAfter os)), SysWaitpid (forkReturn os)]))"
  by (simp add: saveToClipboardWlCopy_def sys_pipe2_def sys_fork_def wlCopyChild_def
                sys_dup2_def sys_execlp_def sys_write_def write_end_without_reader_def
                killedAtWrite_def STDIN_FILENO_def logErr_def failLog_def
                pipefdsAfter_def forkReturn_def Let_def
           split: sysresult.splits exec_result.splits prod.splits)

lemma saveToClipboardWlCopy_png_status:
  "fst (saveToClipboardWlCopy os array ''png'' w) =
     (if fork_result os = Success 0 \<and> execlp_result os = ImageReplaced then Replaced
      else if killedAtWrite os array then Killed
      else Running)"
  by (simp add: saveToClipboardWlCopy_def sys_pipe2_def sys_fork_def wlCopyChild_def
                sys_dup2_def sys_execlp_def sys_write_def write_end_without_reader_def
                killedAtWrite_def Let_def
           split: sysresult.splits exec_result.splits prod.splits)

text \<open>
  C2, as the claim states it, fails.  When \<open>pipe2\<close> created the pipe and \<open>fork\<close> failed, the
  parent logs the failure, closes the read end and writes to a pipe that has no read end
  left: under the default disposition of \<open>SIGPIPE\<close> the process ends inside \<open>write\<close>, and
  neither the second \<open>close\<close> nor \<open>waitpid\<close> is executed.
\<close>

theorem wl_copy_failed_fork_killed_at_write:
  "fst (saveToClipboardWlCopy forkFailOs pngBytes ''png'' exampleWorld) = Killed \<and>
   newEvents exampleWorld (snd (saveToClipboardWlCopy forkFailOs pngBytes ''png'' exampleWorld)) =
     [SysPipe2 O_CLOEXEC, SysFork,
      LogMessage ErrorChannel [] [''wl_copy: fork: '', ''Resource temporarily unavailable''],
      SysClose 5, SysWrite 6 pngBytes 4] \<and>
   SysWaitpid (- 1) \<notin>
     set (newEvents exampleWorld
            (snd (saveToClipboardWlCopy forkFailOs pngBytes ''png'' exampleWorld)))"
  by (simp add: newEvents_def saveToClipboardWlCopy_png_trace saveToClipboardWlCopy_png_status
                forkFailOs_def parentOs_def exampleWorld_def pngBytes_def failLog_def
                pipefdsAfter_def forkReturn_def killedAtWrite_def strerrorExample_def)

text \<open>
  C2, amended.  On \<open>png\<close>, for every answer of the operating system: the log lines of the
  run are exactly one \<open>wl_copy: <call>: <error text>\<close> line per failed call among \<open>pipe2\<close>,
  \<open>fork\<close> and (in the child) \<open>dup2\<close>, and nothing else is done about a failure.  The calls
  of the run, log lines left out, are each made once and in the same order whether or not
  a call failed: \<open>pipe2\<close>, \<open>fork\<close>, the child's block when \<open>fork\<close> returned \<open>0\<close>, then (unless
  \<open>execlp\<close> replaced the child) the close of the read end and the \<open>write\<close>; the close of the
  write end and \<open>waitpid\<close> follow whenever the \<open>write\<close> returns.  It does not return when the
  pipe was created, \<open>fork\<close> failed, the array is not empty and \<open>SIGPIPE\<close> has its default
  disposition: the run then ends there, killed.  After a failed \<open>pipe2\<close> the descriptors
  are the zeros the array was initialised with, after a failed \<open>fork\<close> the pid waited for
  is \<open>-1\<close>.
\<close>

theorem wl_copy_failed_calls_only_logged:
  "(let run = saveToClipboardWlCopy os array ''png'' w;
        t = newEvents w (snd run);
        fds = pipefdsAfter os;
        child = (fork_result os = Success 0);
        replaced = (child \<and> execlp_result os = ImageReplaced)
    in filter isLog t =
         failLog os ''pipe2'' (pipe2_result os) @ failLog os ''fork'' (fork_result os) @
         (if child then failLog os ''dup2'' (dup2_result os) else []) \<and>
       filter (\<lambda>e. \<not> isLog e) t =
         [SysPipe2 O_CLOEXEC, SysFork] @
         (if child
          then [SysClose (snd fds), SysDup2 (fst fds) STDIN_FILENO, SysClose (fst fds),
                SysExeclp ''wl-copy'' [''wl-copy'', ''-t'', ''image/png'']]
          else []) @
         (if replaced then []
          else [SysClose (fst fds), SysWrite (snd fds) array (length array)] @
               (if killedAtWrite os array then []
                else [SysClose (snd fds), SysWaitpid (forkReturn os)])) \<and>
       fst run =
         (if replaced then Replaced else if killedAtWrite os array then Killed else Running))"
proof -
  have logs:
    "filter isLog (newEvents w (snd (saveToClipboardWlCopy os array ''png'' w))) =
       failLog os ''pipe2'' (pipe2_result os) @ failLog os ''fork'' (fork_result os) @
       (if fork_result os = Success 0 then failLog os ''dup2'' (dup2_result os) else [])"
    by (simp add: newEvents_def saveToClipboardWlCopy_png_trace isLog_def failLog_def
             split: sysresult.splits)
  have calls:
    "filter (\<lambda>e. \<not> isLog e) (newEvents w (snd (saveToClipboardWlCopy os array ''png'' w))) =
       [SysPipe2 O_CLOEXEC, SysFork] @
       (if fork_result os = Success 0
        then [SysClose (snd (pipefdsAfter os)), SysDup2 (fst (pipefdsAfter os)) STDIN_FILENO,
              SysClose (fst (pipefdsAfter os)),
              SysExeclp ''wl-copy'' [''wl-copy'', ''-t'', ''image/png'']]
        else []) @
       (if fork_result os = Success 0 \<and> execlp_result os = ImageReplaced then []
        else [SysClose (fst (pipefdsAfter os)),
              SysWrite (snd (pipefdsAfter os)) array (length array)] @
             (if killedAtWrite os array then []
              else [SysClose (snd (pipefdsAfter os)), SysWaitpid (forkReturn os)]))"
    by (simp add: newEvents_def saveToClipboardWlCopy_png_trace isLog_def failLog_def
                  STDIN_FILENO_def
             split: sysresult.splits)
  from logs calls show ?thesis
    by (simp add: Let_def saveToClipboardWlCopy_png_status)
qed

theorem wl_copy_failed_calls_only_logged_witness:
  "filter isLog
     (newEvents exampleWorld (snd (saveToClipboardWlCopy failingOs pngBytes ''png'' exampleWorld))) =
     [LogMessage ErrorChannel [] [''wl_copy: pipe2: '', ''Too many open files''],
      LogMessage ErrorChannel [] [''wl_copy: fork: '', ''Resource temporarily unavailable'']] \<and>
   filter (\<lambda>e. \<not> isLog e)
     (newEvents exampleWorld (snd (saveToClipboardWlCopy failingOs pngBytes ''png'' exampleWorld))) =
     [SysPipe2 O_CLOEXEC, SysFork, SysClose 0, SysWrite 0 pngBytes 4, SysClose 0,
      SysWaitpid (- 1)] \<and>
   fst (saveToClipboardWlCopy failingOs pngBytes ''png'' exampleWorld) = Running \<and>
   filter isLog
     (newEvents exampleWorld
        (snd (saveToClipboardWlCopy childDup2FailOs pngBytes ''png'' exampleWorld))) =
     [LogMessage ErrorChannel [] [''wl_copy: dup2: '', ''Bad file descriptor'']] \<and>
   filter (\<lambda>e. \<not> isLog e)
     (newEvents exampleWorld
        (snd (saveToClipboardWlCopy childDup2FailOs pngBytes ''png'' exampleWorld))) =
     [SysPipe2 O_CLOEXEC, SysFork, SysClose 6, SysDup2 5 0, SysClose 5,
      SysExeclp ''wl-copy'' [''wl-copy'', ''-t'', ''image/png'']] \<and>
   filter (\<lambda>e. \<not> isLog e)
     (newEvents exampleWorld (snd (saveToClipboardWlCopy forkFailOs pngBytes ''png'' exampleWorld))) =
     [SysPipe2 O_CLOEXEC, SysFork, SysClose 5, SysWrite 6 pngBytes 4] \<and>
   fst (saveToClipboardWlCopy forkFailOs pngBytes ''png'' exampleWorld) = Killed \<and>
   filter (\<lambda>e. \<not> isLog e)
     (newEvents exampleWorld
        (snd (saveToClipboardWlCopy forkFailIgnoringOs pngBytes ''png'' exampleWorld))) =
     [SysPipe2 O_CLOEXEC, SysFork, SysClose 5, SysWrite 6 pngBytes 4, SysClose 6,
      SysWaitpid (- 1)] \<and>
   fst (saveToClipboardWlCopy forkFailIgnoringOs pngBytes ''png'' exampleWorld) = Running"
  using wl_copy_failed_calls_only_logged [of failingOs pngBytes exampleWorld]
        wl_copy_failed_calls_only_logged [of childDup2FailOs pngBytes exampleWorld]
        wl_copy_failed_calls_only_logged [of forkFailOs pngBytes exampleWorld]
        wl_copy_failed_calls_only_logged [of forkFailIgnoringOs pngBytes exampleWorld]
  by (simp add: failingOs_def childDup2FailOs_def childOs_def parentOs_def forkFailOs_def
                forkFailIgnoringOs_def failLog_def pipefdsAfter_def forkReturn_def
                killedAtWrite_def strerrorExample_def pngBytes_def STDIN_FILENO_def Let_def)

section \<open>Saving to a file: \<open>saveToFilesystem\<close>\<close>

text \<open>
  C3.  For every capture, path and message prefix, with \<open>cp\<close> the complete path: the file
  is opened and the image saved into it once; when the save fails the function writes one
  line on the error channel (prefix, \<open>Error trying to save as cp\<close>, and \<open>: \<close> with the
  file's error string when the file reports an error), with no notification path, and
  returns false; when the save succeeds it writes one line on the info channel and returns
  true.  The world changes in nothing else.
\<close>

theorem saveToFilesystem_logs_and_returns_okay:
  "(let cp = properScreenshotPath qt path (cfg_saveAsFileExtension (settings w));
        pre = (if messagePrefix = [] then [] else messagePrefix @ '' '')
    in saveToFilesystem qt capture path messagePrefix w =
       (if pixmapSave qt capture cp
        then (True,
              w\<lparr>trace := trace w @
                   [FileOpenWriteOnly cp, PixmapSave capture cp,
                    LogMessage InfoChannel cp [pre @ tr qt ''Capture saved as '' @ cp]]\<rparr>)
        else (False,
              w\<lparr>trace := trace w @
                   [FileOpenWriteOnly cp, PixmapSave capture cp,
                    LogMessage ErrorChannel []
                      [pre @ tr qt ''Error trying to save as '' @ cp @
                       (case fileError qt cp of None \<Rightarrow> [] | Some s \<Rightarrow> '': '' @ s)]]\<rparr>)))"
  by (simp add: saveToFilesystem_def emit_def Let_def split: option.splits)

theorem saveToFilesystem_logs_and_returns_okay_witness:
  "saveToFilesystem exampleQt 7 ''/root'' ''Capture saved to clipboard.'' exampleWorld =
     (False,
      exampleWorld\<lparr>trace :=
        [FileOpenWriteOnly ''/root/shot.png'', PixmapSave 7 ''/root/shot.png'',
         LogMessage ErrorChannel []
           [''Capture saved to clipboard. Error trying to save as /root/shot.png: Permission denied'']]\<rparr>) \<and>
   saveToFilesystem exampleQt 7 ''/tmp'' [] exampleWorld =
     (True,
      exampleWorld\<lparr>trace :=
        [FileOpenWriteOnly ''/tmp/shot.png'', PixmapSave 7 ''/tmp/shot.png'',
         LogMessage InfoChannel ''/tmp/shot.png'' [''Capture saved as /tmp/shot.png'']]\<rparr>)"
  using saveToFilesystem_logs_and_returns_okay
          [of exampleQt "''/root''" exampleWorld "''Capture saved to clipboard.''" 7]
        saveToFilesystem_logs_and_returns_okay [of exampleQt "''/tmp''" exampleWorld "[]" 7]
  by (simp add: exampleQt_def exampleWorld_def Let_def)

text \<open>
  C7.  For every capture, path and message prefix: the file events of the run are the
  opening of, and the save of the capture into, the complete path
  \<open>properScreenshotPath path (saveAsFileExtension)\<close>, and the function returns what that
  save returned.
\<close>

theorem saveToFilesystem_writes_complete_path:
  "(let cp = properScreenshotPath qt path (cfg_saveAsFileExtension (settings w));
        run = saveToFilesystem qt capture path messagePrefix w
    in fst run = pixmapSave qt capture cp \<and>
       filter isFileEvent (newEvents w (snd run)) =
         [FileOpenWriteOnly cp, PixmapSave capture cp])"
  by (simp add: saveToFilesystem_def Let_def newEvents_def isFileEvent_def split: option.splits)

theorem saveToFilesystem_writes_complete_path_witness:
  "fst (saveToFilesystem exampleQt 7 ''/tmp'' ''Saved.'' exampleWorld) = True \<and>
   filter isFileEvent
     (newEvents exampleWorld (snd (saveToFilesystem exampleQt 7 ''/tmp'' ''Saved.'' exampleWorld))) =
     [FileOpenWriteOnly ''/tmp/shot.png'', PixmapSave 7 ''/tmp/shot.png''] \<and>
   fst (saveToFilesystem exampleQt 7 ''/root'' ''Saved.'' exampleWorld) = False"
  using saveToFilesystem_writes_complete_path [of exampleQt "''/tmp''" exampleWorld 7 "''Saved.''"]
        saveToFilesystem_writes_complete_path [of exampleQt "''/root''" exampleWorld 7 "''Saved.''"]
  by (simp add: exampleQt_def exampleWorld_def Let_def)

section \<open>The save dialog: \<open>ShowSaveFileDialog\<close>\<close>

lemma mimeTypeLoop_filter:
  "mimeTypeLoop xs acc = acc @ filter (\<lambda>m. m \<notin> heifAliases) xs"
  by (induction xs arbitrary: acc) (simp_all add: heifAliases_def)

lemma ShowSaveFileDialog_trace:
  "trace (snd (ShowSaveFileDialog qt title dir w)) =
     trace w @ [FileDialogExec (saveDialogSetup qt title dir (settings w))]"
  by (simp add: ShowSaveFileDialog_def Let_def split: list.splits)

text \<open>
  C5.  The dialog that is executed has as mime type filters exactly the supported mime
  types of the image writer without \<open>image/heic\<close>, \<open>image/heic-sequence\<close> and
  \<open>image/heif-sequence\<close>, in their order; \<open>image/heif\<close> is among the filters precisely
  when it is supported.
\<close>

theorem ShowSaveFileDialog_mime_filters:
  "(let d = saveDialogSetup qt title dir (settings w)
    in newEvents w (snd (ShowSaveFileDialog qt title dir w)) = [FileDialogExec d] \<and>
       mimeTypeFilters d = filter (\<lambda>m. m \<notin> heifAliases) (supportedMimeTypes qt) \<and>
       (''image/heif'' \<in> set (mimeTypeFilters d)) =
         (''image/heif'' \<in> set (supportedMimeTypes qt)))"
proof -
  have "mimeTypeFilters (saveDialogSetup qt title dir (settings w)) =
          filter (\<lambda>m. m \<notin> heifAliases) (supportedMimeTypes qt)"
    by (simp add: saveDialogSetup_def mimeTypeLoop_filter Let_def)
  then show ?thesis
    by (simp add: ShowSaveFileDialog_trace Let_def heifAliases_def)
qed

theorem ShowSaveFileDialog_mime_filters_witness:
  "mimeTypeFilters (saveDialogSetup exampleQt ''Save screenshot'' ''/home/u'' (settings exampleWorld)) =
     [''image/bmp'', ''image/heif'', ''image/jpeg'', ''image/png''] \<and>
   newEvents exampleWorld (snd (ShowSaveFileDialog exampleQt ''Save screenshot'' ''/home/u'' exampleWorld)) =
     [FileDialogExec (saveDialogSetup exampleQt ''Save screenshot'' ''/home/u'' (settings exampleWorld))]"
  using ShowSaveFileDialog_mime_filters
          [of exampleQt "''Save screenshot''" "''/home/u''" exampleWorld]
  by (simp add: exampleQt_def heifAliases_def Let_def)

text \<open>
  C6.  The function executes one dialog, in save mode, with the given title and directory,
  whose default suffix is the configured save extension, or \<open>png\<close> when that is empty.
  When the dialog is accepted the function returns the first of the selected files; when
  it is not accepted it returns the empty string.
\<close>

theorem ShowSaveFileDialog_result_and_suffix:
  "(let d = saveDialogSetup qt title dir (settings w);
        run = ShowSaveFileDialog qt title dir w
    in newEvents w (snd run) = [FileDialogExec d] \<and>
       acceptMode d = AcceptSave \<and> windowTitle d = title \<and> startDirectory d = dir \<and>
       defaultSuffix d =
         (if cfg_saveAsFileExtension (settings w) = [] then ''png''
          else cfg_saveAsFileExtension (settings w)) \<and>
       (accepted (dialogExec qt d) \<and> selectedFiles (dialogExec qt d) = f # fs \<longrightarrow>
          fst run = Inr f) \<and>
       (\<not> accepted (dialogExec qt d) \<longrightarrow> fst run = Inr []))"
proof -
  have "fst (ShowSaveFileDialog qt title dir w) =
          (let r = dialogExec qt (saveDialogSetup qt title dir (settings w))
           in if accepted r
              then (case selectedFiles r of [] \<Rightarrow> Inl EmptyListAccess | g # gs \<Rightarrow> Inr g)
              else Inr [])"
    by (simp add: ShowSaveFileDialog_def Let_def split: list.splits)
  moreover have "acceptMode (saveDialogSetup qt title dir (settings w)) = AcceptSave"
    and "windowTitle (saveDialogSetup qt title dir (settings w)) = title"
    and "startDirectory (saveDialogSetup qt title dir (settings w)) = dir"
    and "defaultSuffix (saveDialogSetup qt title dir (settings w)) =
           (if cfg_saveAsFileExtension (settings w) = [] then ''png''
            else cfg_saveAsFileExtension (settings w))"
    by (simp_all add: saveDialogSetup_def newFileDialog_def Let_def)
  ultimately show ?thesis
    by (simp add: ShowSaveFileDialog_trace Let_def)
qed

theorem ShowSaveFileDialog_result_and_suffix_witness:
  "fst (ShowSaveFileDialog exampleQt ''Save screenshot'' ''/home/u'' exampleWorld) =
     Inr ''/home/u/Pictures/shot.png'' \<and>
   fst (ShowSaveFileDialog cancelQt ''Save screenshot'' ''/home/u'' exampleWorld) = Inr [] \<and>
   defaultSuffix (saveDialogSetup cancelQt ''Save screenshot'' ''/home/u'' (settings exampleWorld)) =
     ''png''"
  using ShowSaveFileDialog_result_and_suffix
          [of exampleQt "''Save screenshot''" "''/home/u''" exampleWorld
              "''/home/u/Pictures/shot.png''" "[]"]
        ShowSaveFileDialog_result_and_suffix
          [of cancelQt "''Save screenshot''" "''/home/u''" exampleWorld]
  by (simp add: exampleQt_def cancelQt_def exampleWorld_def Let_def)

section \<open>Copying to the clipboard: \<open>saveToClipboardMime\<close>\<close>

text \<open>
  C10.  Under every build: when the bytes encoded from the capture do not load back as a
  pixmap in the same format, the function writes the one error line
  \<open>Error while saving to clipboard\<close> and nothing else, so no backend is invoked.
\<close>

theorem saveToClipboardMime_no_backend_when_reload_fails:
  "loadFromData qt (imageWriterWrite qt capture (toUpper qt imageType)) (toUpper qt imageType) = None \<Longrightarrow>
   saveToClipboardMime b os qt capture imageType w =
     (Running,
      w\<lparr>trace := trace w @
           [LogMessage ErrorChannel [] [tr qt ''Error while saving to clipboard'']]\<rparr>)"
  by (simp add: saveToClipboardMime_def emit_def)

theorem saveToClipboardMime_no_backend_when_reload_fails_witness:
  "saveToClipboardMime wlCopyBuild parentOs exampleQt 7 ''jpeg'' exampleWorld =
     (Running,
      exampleWorld\<lparr>trace := [LogMessage ErrorChannel [] [''Error while saving to clipboard'']]\<rparr>)"
  using saveToClipboardMime_no_backend_when_reload_fails
          [of exampleQt 7 "''jpeg''" wlCopyBuild parentOs exampleWorld]
  by (simp add: exampleQt_def exampleWorld_def)






section \<open>Saving through the dialog: \<open>saveToFilesystemGUI\<close>\<close>

lemma lastIndexOf_absent: "c \<notin> set s \<Longrightarrow> lastIndexOf c s = - 1"
  by (induction s) (auto simp: Let_def)

lemma lastIndexOf_bounds: "- 1 \<le> lastIndexOf c s \<and> lastIndexOf c s < int (length s)"
  by (induction s) (auto simp: Let_def)

lemma lastIndexOf_present: "c \<in> set s \<Longrightarrow> 0 \<le> lastIndexOf c s"
  by (induction s) (auto simp: Let_def)

text \<open>Cutting at the last occurrence leaves a remainder without the character.\<close>

lemma lastIndexOf_split:
  "c \<in> set s \<Longrightarrow> \<exists>name. s = take (nat (lastIndexOf c s)) s @ c # name \<and> c \<notin> set name"
proof (induction s)
  case Nil
  then show ?case by simp
next
  case (Cons x xs)
  show ?case
  proof (cases "c \<in> set xs")
    case True
    from Cons.IH [OF True] obtain name
      where split: "xs = take (nat (lastIndexOf c xs)) xs @ c # name" and fresh: "c \<notin> set name"
      by blast
    have nonneg: "0 \<le> lastIndexOf c xs"
      using True by (rule lastIndexOf_present)
    then have "nat (lastIndexOf c xs + 1) = Suc (nat (lastIndexOf c xs))"
      by simp
    then have "x # xs = take (nat (lastIndexOf c (x # xs))) (x # xs) @ c # name"
      using nonneg split by (simp add: Let_def)
    with fresh show ?thesis by blast
  next
    case False
    with Cons.prems have "x = c" by simp
    moreover from False have "lastIndexOf c xs = - 1"
      by (rule lastIndexOf_absent)
    ultimately have "x # xs = take (nat (lastIndexOf c (x # xs))) (x # xs) @ c # xs"
      by (simp add: Let_def)
    with False show ?thesis by blast
  qed
qed

lemma left_lastIndexOf_split:
  assumes "c \<in> set s"
  shows "\<exists>name. s = left (lastIndexOf c s) s @ [c] @ name \<and> c \<notin> set name"
proof -
  have "left (lastIndexOf c s) s = take (nat (lastIndexOf c s)) s"
    using lastIndexOf_present [OF assms] lastIndexOf_bounds [of c s]
    by (simp add: left_def)
  with lastIndexOf_split [OF assms] show ?thesis by simp
qed

text \<open>Choosing the path neither touches the settings nor a file.\<close>

lemma promptSavePath_frame:
  assumes "promptSavePath b qt w = (r, w1)"
  shows "settings w1 = settings w \<and>
         (\<exists>es. trace w1 = trace w @ es \<and> filter isFileEvent es = [] \<and>
               filter isConfigWrite es = [])"
  using assms
  by (auto simp: promptSavePath_def ShowSaveFileDialog_def Let_def isFileEvent_def
                 isConfigWrite_def
           split: if_splits list.splits)

text \<open>
  C9.  Let the first half of the function (default path, and the dialog unless the save
  path is fixed) end in the world \<open>w1\<close> with the outcome \<open>r\<close>.  Up to there no setting has
  changed and no file was opened or written.  When the path is empty (the dialog was
  cancelled) the function returns false in that world.  When the path \<open>p\<close> is not empty the
  function opens \<open>p\<close>, saves the capture into it once and returns what the save returned;
  the save path setting is written, once, precisely when the save succeeded, and the
  settings are otherwise those before the call.  The value written is \<open>p\<close> cut before its
  last \<open>/\<close>: when \<open>p\<close> contains a \<open>/\<close>, \<open>p\<close> is that value, a \<open>/\<close> and a name without \<open>/\<close>.
\<close>

theorem saveToFilesystemGUI_config_only_on_success:
  assumes "promptSavePath b qt w = (r, w1)"
  shows "(let run = saveToFilesystemGUI b qt capture w
          in settings w1 = settings w \<and>
             filter isFileEvent (newEvents w w1) = [] \<and>
             filter isConfigWrite (newEvents w w1) = [] \<and>
             (case r of
                Inl e \<Rightarrow> run = (Inl e, w1)
              | Inr p \<Rightarrow>
                  (let okay = pixmapSave qt capture p;
                       dir = left (lastIndexOf CHR ''/'' p) p
                   in (p = [] \<longrightarrow> run = (Inr False, w1)) \<and>
                      (p \<noteq> [] \<longrightarrow>
                         fst run = Inr okay \<and>
                         settings (snd run) =
                           (if okay then (settings w)\<lparr>cfg_savePath := dir\<rparr> else settings w) \<and>
                         filter isConfigWrite (newEvents w (snd run)) =
                           (if okay then [ConfigSetSavePath dir] else []) \<and>
                         filter isFileEvent (newEvents w (snd run)) =
                           [FileOpenWriteOnly p, PixmapSave capture p]) \<and>
                      (CHR ''/'' \<in> set p \<longrightarrow>
                         (\<exists>name. p = dir @ ''/'' @ name \<and> CHR ''/'' \<notin> set name)))))"
proof -
  from promptSavePath_frame [OF assms] obtain es
    where cfg: "settings w1 = settings w" and tr: "trace w1 = trace w @ es"
      and nofile: "filter isFileEvent es = []" and nocfg: "filter isConfigWrite es = []"
    by blast
  have ev: "newEvents w w1 = es"
    using tr by simp
  show ?thesis
  proof (cases r)
    case (Inl e)
    then show ?thesis
      using assms cfg ev nofile nocfg by (simp add: saveToFilesystemGUI_def)
  next
    case (Inr p)
    have dirname: "CHR ''/'' \<in> set p \<longrightarrow>
        (\<exists>name. p = left (lastIndexOf CHR ''/'' p) p @ ''/'' @ name \<and> CHR ''/'' \<notin> set name)"
      using left_lastIndexOf_split [of "CHR ''/''" p] by simp
    show ?thesis
    proof (cases "p = []")
      case True
      then show ?thesis
        using assms Inr cfg ev nofile nocfg by (simp add: saveToFilesystemGUI_def)
    next
      case False
      then show ?thesis
        using assms Inr cfg ev nofile nocfg dirname tr
        by (simp add: saveToFilesystemGUI_def Let_def setSavePath_def newEvents_def
                      isFileEvent_def isConfigWrite_def
                 split: option.splits)
    qed
  qed
qed

theorem saveToFilesystemGUI_config_only_on_success_witness:
  "saveToFilesystemGUI standardBuild cancelQt 7 exampleWorld =
     (Inr False,
      emit (FileDialogExec
              (saveDialogSetup cancelQt ''Save screenshot'' ''/home/u/Pictures/shot.png''
                 (settings exampleWorld)))
        exampleWorld) \<and>
   fst (saveToFilesystemGUI standardBuild exampleQt 7 exampleWorld) = Inr True \<and>
   cfg_savePath (settings (snd (saveToFilesystemGUI standardBuild exampleQt 7 exampleWorld))) =
     ''/home/u/Pictures'' \<and>
   filter isConfigWrite
     (newEvents exampleWorld (snd (saveToFilesystemGUI standardBuild exampleQt 7 exampleWorld))) =
     [ConfigSetSavePath ''/home/u/Pictures'']"
proof -
  have cancelled:
    "promptSavePath standardBuild cancelQt exampleWorld =
       (Inr [],
        emit (FileDialogExec
                (saveDialogSetup cancelQt ''Save screenshot'' ''/home/u/Pictures/shot.png''
                   (settings exampleWorld)))
          exampleWorld)"
    by (simp add: promptSavePath_def ShowSaveFileDialog_def cancelQt_def exampleQt_def
                  exampleWorld_def standardBuild_def Let_def)
  have chosen:
    "promptSavePath standardBuild exampleQt exampleWorld =
       (Inr ''/home/u/Pictures/shot.png'',
        emit (FileDialogExec
                (saveDialogSetup exampleQt ''Save screenshot'' ''/home/u/Pictures/shot.png''
                   (settings exampleWorld)))
          exampleWorld)"
    by (simp add: promptSavePath_def ShowSaveFileDialog_def exampleQt_def
                  exampleWorld_def standardBuild_def Let_def)
  have cut: "left (lastIndexOf CHR ''/'' ''/home/u/Pictures/shot.png'') ''/home/u/Pictures/shot.png'' =
               ''/home/u/Pictures''"
    by (simp add: left_def Let_def)
  have saved: "pixmapSave exampleQt 7 ''/home/u/Pictures/shot.png''"
    by (simp add: exampleQt_def)
  show ?thesis
    using saveToFilesystemGUI_config_only_on_success [OF cancelled, of 7]
          saveToFilesystemGUI_config_only_on_success [OF chosen, of 7]
          cut saved
    by (simp add: Let_def)
qed

end
